theory Spec2Isabelle
  imports Main
begin

section \<open>Data model (app/db/models.py)\<close>

text \<open>
  Python's \<open>date\<close> is modelled by its proleptic Gregorian ordinal
  (\<open>date.toordinal()\<close>): \<open>date.min\<close> is day 1 and \<open>date.max\<close> (9999-12-31) is day
  3652059. \<open>(a - b).days\<close> is the difference of the ordinals; \<open>a + timedelta(days=n)\<close>
  adds \<open>n\<close> and raises OverflowError outside the range. A \<open>datetime\<close> is an opaque
  integer time stamp.
\<close>

type_synonym date = int
type_synonym datetime = int

definition date_min :: date where
  "date_min = 1"

definition date_max :: date where
  "date_max = 3652059"

text \<open>\<open>class SubscriptionStatus(str, Enum)\<close>: a closed enumeration whose members are
  also strings, so that \<open>s.status == "active"\<close> compares the member's value.\<close>

datatype SubscriptionStatus = ACTIVE | EXPIRED | CANCELLED | FROZEN

fun status_value :: "SubscriptionStatus \<Rightarrow> string" where
  "status_value ACTIVE = ''active''"
| "status_value EXPIRED = ''expired''"
| "status_value CANCELLED = ''cancelled''"
| "status_value FROZEN = ''frozen''"

text \<open>\<open>class Subscription(BaseModel)\<close>. The field \<open>id\<close> is called \<open>sub_id\<close> here
  (\<open>id\<close> is the identity function of HOL); \<open>amount\<close> is a Decimal that the scheduler only
  copies into the message, kept as an integer number of minor units.\<close>

record subscription =
  sub_id :: string
  business_id :: string
  client_id :: string
  amount :: int
  currency :: string
  start_date :: date
  end_date :: date
  status :: SubscriptionStatus
  reminder_sent_at :: "datetime option"
  created_at :: datetime

text \<open>\<open>class Client(BaseModel)\<close>, fields prefixed where they would clash with those of
  \<open>subscription\<close>.\<close>

record client =
  c_id :: string
  c_business_id :: string
  full_name :: string
  phone :: string
  c_created_at :: datetime

text \<open>
  Values that arrive untyped from the store's JSON (\<open>owner_row.get(...)\<close>) and are passed
  on without conversion: null, booleans, integers and strings. Python compares an integer
  with such a value by \<open>==\<close> (a bool is the integer 0 or 1, anything else that is not a
  number is unequal) and tests it for truth with \<open>not v\<close>. The columns read this way
  (\<open>reminder_hour\<close>, \<open>telegram_user_id\<close>, \<open>reminder_days_before\<close>) are integer columns;
  fractional numbers, arrays and objects are left out.
\<close>

datatype jval = JNull | JBool bool | JInt int | JStr string

fun py_eq_int :: "int \<Rightarrow> jval \<Rightarrow> bool" where
  "py_eq_int n (JInt m) = (n = m)"
| "py_eq_int n (JBool b) = (n = (if b then 1 else 0))"
| "py_eq_int n JNull = False"
| "py_eq_int n (JStr s) = False"

fun py_truthy :: "jval \<Rightarrow> bool" where
  "py_truthy JNull = False"
| "py_truthy (JBool b) = b"
| "py_truthy (JInt n) = (n \<noteq> 0)"
| "py_truthy (JStr s) = (s \<noteq> [])"

section \<open>The two due-set filters\<close>

text \<open>
  The list comprehension of \<open>send_reminder_for_business\<close> (app/bot/scheduler.py):
  \<^verbatim>\<open>
  expiring_today = [
      s for s in subs
      if s.status == "active"
      and (s.end_date - today).days == days_until
      and s.reminder_sent_at is None
  ]
  \<close>
\<close>

definition expiring_today :: "date \<Rightarrow> jval \<Rightarrow> subscription list \<Rightarrow> subscription list" where
  "expiring_today today days_until subs =
     filter (\<lambda>s. status_value (status s) = ''active''
                 \<and> py_eq_int (end_date s - today) days_until
                 \<and> reminder_sent_at s = None) subs"

text \<open>The exceptions that occur, all of them subclasses of \<open>Exception\<close> (what
  \<open>except Exception\<close> catches).\<close>

datatype error =
    SupabaseError string
  | NetworkError
  | TelegramError
  | RuntimeError string
  | OverflowError
  | JSONDecodeError
  | SchedulerNotRunningError

text \<open>
  The filter of \<open>SupabaseClient.list_expiring_subscriptions\<close> (app/db/supabase.py), applied
  to the subscriptions already loaded:
  \<^verbatim>\<open>
  today = date.today()
  cutoff_date = today + timedelta(days=days_until)
  ...
  return [
      s for s in subs
      if s.status == SubscriptionStatus.ACTIVE
      and today <= s.end_date <= cutoff_date
      and s.reminder_sent_at is None
  ]
  \<close>
  \<open>timedelta(days=n)\<close> raises OverflowError when \<open>|n| > 999999999\<close>, and the addition
  raises it when the cutoff is not a date.
\<close>

definition add_days :: "date \<Rightarrow> int \<Rightarrow> error + date" where
  "add_days d n =
     (if \<bar>n\<bar> > 999999999 then Inl OverflowError
      else if d + n < date_min \<or> date_max < d + n then Inl OverflowError
      else Inr (d + n))"

definition expiring_within :: "date \<Rightarrow> date \<Rightarrow> subscription list \<Rightarrow> subscription list" where
  "expiring_within today cutoff_date subs =
     filter (\<lambda>s. status s = ACTIVE
                 \<and> today \<le> end_date s \<and> end_date s \<le> cutoff_date
                 \<and> reminder_sent_at s = None) subs"

section \<open>The store, the notification sender and the log\<close>

text \<open>
  The message handed to \<open>bot.send_message\<close>: the recipient, the lead time printed in
  the header and one line per due subscription (client name, end date, amount,
  currency). The rendering to HTML text is not modelled.
\<close>

record message =
  chat_id :: jval
  header_days :: jval
  entries :: "(string \<times> date \<times> int \<times> string) list"

text \<open>What the module's logger is given, one constructor per logging call.\<close>

datatype log_entry =
    NoRemindersDue string
  | MarkedReminderSent string
  | FailedToMark string error
  | ErrorSendingReminder error
  | RunningHourlyCheck int
  | FailedToFetchOwners
  | ErrorProcessingOwner jval error
  | HourlyCheckCompleted
  | ErrorDuringHourlyCheck error
  | SchedulerStarted
  | SchedulerStopped

text \<open>
  Everything the scheduler reads or writes outside itself: the two tables it reads, the
  messages delivered so far, the PATCH requests issued to the subscriptions table (one
  per call of \<open>mark_reminder_sent\<close>, whatever its outcome) and the log.
\<close>

record world =
  subscriptions :: "subscription list"
  clients :: "client list"
  outbox :: "message list"
  mark_requests :: "string list"
  logs :: "log_entry list"

text \<open>
  How the collaborators answer during one invocation: each REST call either raises in
  the transport (\<open>Inl\<close>) or returns an HTTP status code; \<open>bot.send_message\<close> either
  delivers or raises. The client sends its PATCH without a \<open>Prefer\<close> header, so whether
  the answer to an accepted PATCH carries the updated rows or an empty body is up to the
  store: \<open>patch_returns_rows\<close>.
\<close>

record env =
  subs_get :: "error + nat"
  clients_get :: "error + nat"
  send_result :: "error option"
  patch :: "string \<Rightarrow> error + nat"
  patch_returns_rows :: bool

definition log_add :: "log_entry \<Rightarrow> world \<Rightarrow> world" where
  "log_add e w = w\<lparr>logs := logs w @ [e]\<rparr>"

text \<open>
  \<open>SupabaseClient.list_subscriptions_for_business\<close>: GET /subscriptions with
  \<open>business_id=eq.<id>\<close> and \<open>order=end_date.asc\<close>; a status of 400 or more raises
  SupabaseError, whose message quotes the table name (the closing quote is appended as
  a character).
\<close>

definition list_subscriptions_for_business :: "env \<Rightarrow> string \<Rightarrow> world \<Rightarrow> error + subscription list" where
  "list_subscriptions_for_business ev bid w =
     (case subs_get ev of
        Inl e \<Rightarrow> Inl e
      | Inr code \<Rightarrow>
          if code \<ge> 400 then Inl (SupabaseError (''Supabase REST GET failed for 'subscriptions'' @ [CHR 0x27]))
          else Inr (sort_key end_date (filter (\<lambda>s. business_id s = bid) (subscriptions w))))"

text \<open>\<open>SupabaseClient.list_expiring_subscriptions\<close>: the cutoff date is computed before
  the subscriptions are loaded.\<close>

definition list_expiring_subscriptions :: "env \<Rightarrow> date \<Rightarrow> string \<Rightarrow> int \<Rightarrow> world \<Rightarrow> error + subscription list" where
  "list_expiring_subscriptions ev today bid days_until w =
     (case add_days today days_until of
        Inl e \<Rightarrow> Inl e
      | Inr cutoff_date \<Rightarrow>
          (case list_subscriptions_for_business ev bid w of
             Inl e \<Rightarrow> Inl e
           | Inr subs \<Rightarrow> Inr (expiring_within today cutoff_date subs)))"

text \<open>\<open>SupabaseClient.list_clients_for_business\<close>: GET /clients with
  \<open>order=created_at.asc\<close>.\<close>

definition list_clients_for_business :: "env \<Rightarrow> string \<Rightarrow> world \<Rightarrow> error + client list" where
  "list_clients_for_business ev bid w =
     (case clients_get ev of
        Inl e \<Rightarrow> Inl e
      | Inr code \<Rightarrow>
          if code \<ge> 400 then Inl (SupabaseError (''Supabase REST GET failed for 'clients'' @ [CHR 0x27]))
          else Inr (sort_key c_created_at (filter (\<lambda>c. c_business_id c = bid) (clients w))))"

text \<open>
  \<open>SupabaseClient.mark_reminder_sent\<close>: PATCH /subscriptions with \<open>id=eq.<id>\<close>. A
  transport exception or a status of 400 or more raises and the store is as before.
  Otherwise the store has set \<open>reminder_sent_at\<close> on every row of that id, and the
  method decodes the answer: an empty body makes \<open>response.json()\<close> raise, an empty
  list of rows raises "Subscription not found to update", and else the first updated
  row is returned.
\<close>

definition set_reminder :: "datetime \<Rightarrow> string \<Rightarrow> subscription \<Rightarrow> subscription" where
  "set_reminder now sid s = (if sub_id s = sid then s\<lparr>reminder_sent_at := Some now\<rparr> else s)"

definition mark_reminder_sent :: "env \<Rightarrow> datetime \<Rightarrow> string \<Rightarrow> world \<Rightarrow> (error + subscription) \<times> world" where
  "mark_reminder_sent ev now sid w =
     (let w1 = w\<lparr>mark_requests := mark_requests w @ [sid]\<rparr> in
      case patch ev sid of
        Inl e \<Rightarrow> (Inl e, w1)
      | Inr code \<Rightarrow>
          if code \<ge> 400 then (Inl (SupabaseError ''Failed to mark reminder as sent''), w1)
          else
            let w2 = w1\<lparr>subscriptions := map (set_reminder now sid) (subscriptions w1)\<rparr> in
            if \<not> patch_returns_rows ev then (Inl JSONDecodeError, w2)
            else
              (case filter (\<lambda>s. sub_id s = sid) (subscriptions w2) of
                 [] \<Rightarrow> (Inl (SupabaseError ''Subscription not found to update''), w2)
               | r # rest \<Rightarrow> (Inr r, w2)))"

text \<open>\<open>bot.send_message\<close>: the message is delivered, or the call raises and nothing
  is delivered.\<close>

definition send_message :: "env \<Rightarrow> message \<Rightarrow> world \<Rightarrow> error + world" where
  "send_message ev m w =
     (case send_result ev of
        Some e \<Rightarrow> Inl e
      | None \<Rightarrow> Inr (w\<lparr>outbox := outbox w @ [m]\<rparr>))"

section \<open>The single-owner routine (SubscriptionReminderScheduler.send_reminder_for_business)\<close>

text \<open>
  The marking loop:
  \<^verbatim>\<open>
  for sub in expiring_today:
      try:
          await supabase.mark_reminder_sent(sub.id)
          logger.debug(f"Marked reminder sent for subscription {sub.id}")
      except Exception as exc:
          logger.error(f"Failed to mark reminder for {sub.id}: {exc}")
  \<close>
\<close>

definition mark_one :: "env \<Rightarrow> datetime \<Rightarrow> subscription \<Rightarrow> world \<Rightarrow> world" where
  "mark_one ev now sub w =
     (case mark_reminder_sent ev now (sub_id sub) w of
        (Inr r, w') \<Rightarrow> log_add (MarkedReminderSent (sub_id sub)) w'
      | (Inl exc, w') \<Rightarrow> log_add (FailedToMark (sub_id sub) exc) w')"

fun mark_each :: "env \<Rightarrow> datetime \<Rightarrow> subscription list \<Rightarrow> world \<Rightarrow> world" where
  "mark_each ev now [] w = w"
| "mark_each ev now (sub # rest) w = mark_each ev now rest (mark_one ev now sub w)"

text \<open>\<open>client_map = {c.id: c.full_name for c in clients}\<close> (a later client of the same
  id overwrites an earlier one) and \<open>client_map.get(sub.client_id, "Unknown")\<close>.\<close>

definition client_map :: "client list \<Rightarrow> (string \<rightharpoonup> string)" where
  "client_map cs = map_of (rev (map (\<lambda>c. (c_id c, full_name c)) cs))"

definition entry_of :: "(string \<rightharpoonup> string) \<Rightarrow> subscription \<Rightarrow> string \<times> date \<times> int \<times> string" where
  "entry_of cm sub =
     ((case cm (client_id sub) of None \<Rightarrow> ''Unknown'' | Some n \<Rightarrow> n),
      end_date sub, amount sub, currency sub)"

text \<open>
  The body of the routine's \<open>try\<close> block. The result is the world it leaves and the
  exception that escapes the block, if any.
\<close>

definition reminder_body :: "env \<Rightarrow> date \<Rightarrow> datetime \<Rightarrow> string \<Rightarrow> jval \<Rightarrow> jval \<Rightarrow> world \<Rightarrow> world \<times> error option" where
  "reminder_body ev today now bid owner_telegram_id days_until w =
     (case list_subscriptions_for_business ev bid w of
        Inl exc \<Rightarrow> (w, Some exc)
      | Inr subs \<Rightarrow>
          let due = expiring_today today days_until subs in
          if due = [] then (log_add (NoRemindersDue bid) w, None)
          else
            (case list_clients_for_business ev bid w of
               Inl exc \<Rightarrow> (w, Some exc)
             | Inr cs \<Rightarrow>
                 let m = \<lparr>chat_id = owner_telegram_id, header_days = days_until,
                          entries = map (entry_of (client_map cs)) due\<rparr> in
                 (case send_message ev m w of
                    Inl exc \<Rightarrow> (w, Some exc)
                  | Inr w1 \<Rightarrow> (mark_each ev now due w1, None))))"

text \<open>
  The routine itself: the whole body sits in \<open>try: ... except Exception as exc:
  logger.exception("Error sending reminder: %s", exc)\<close>. The second component of the
  result is the exception the routine raises to its caller.
\<close>

definition send_reminder_for_business :: "env \<Rightarrow> date \<Rightarrow> datetime \<Rightarrow> string \<Rightarrow> jval \<Rightarrow> jval \<Rightarrow> world \<Rightarrow> world \<times> error option" where
  "send_reminder_for_business ev today now bid owner_telegram_id days_until w =
     (case reminder_body ev today now bid owner_telegram_id days_until w of
        (w', Some exc) \<Rightarrow> (log_add (ErrorSendingReminder exc) w', None)
      | (w', None) \<Rightarrow> (w', None))"

section \<open>The hourly sweep (SubscriptionReminderScheduler._send_hourly_reminders)\<close>

text \<open>
  An owner row is the JSON object the store returns for a row of \<open>owner_profiles\<close>: a
  dictionary from column names to values. \<open>row.get(k, d)\<close> yields \<open>d\<close> only when the
  key is absent; \<open>row.get(k)\<close> yields None then.
\<close>

type_synonym owner_row = "string \<rightharpoonup> jval"

definition dict_get :: "owner_row \<Rightarrow> string \<Rightarrow> jval \<Rightarrow> jval" where
  "dict_get row k d = (case row k of None \<Rightarrow> d | Some v \<Rightarrow> v)"

text \<open>
  The sweep calls two collaborators for an owner, and both are parameters here:
  \<open>lookup\<close> stands for \<open>supabase.get_owner_by_telegram\<close> (it raises, finds no owner, or
  yields the id of the owner's business) and \<open>routine\<close> for
  \<open>self.send_reminder_for_business\<close> (it leaves a world and may raise).

  The inner \<open>try\<close> block of the loop:
  \<^verbatim>\<open>
  owner_data = await supabase.get_owner_by_telegram(telegram_user_id)
  if not owner_data:
      continue
  owner, business = owner_data
  await self.send_reminder_for_business(
      business_id=business.id, owner_telegram_id=telegram_user_id, days_until=days_before)
  \<close>
\<close>

type_synonym lookup = "jval \<Rightarrow> world \<Rightarrow> error + string option"
type_synonym routine = "string \<Rightarrow> jval \<Rightarrow> jval \<Rightarrow> world \<Rightarrow> world \<times> error option"

definition process_owner :: "lookup \<Rightarrow> routine \<Rightarrow> jval \<Rightarrow> jval \<Rightarrow> world \<Rightarrow> world \<times> error option" where
  "process_owner lookup routine telegram_user_id days_before w =
     (case lookup telegram_user_id w of
        Inl exc \<Rightarrow> (w, Some exc)
      | Inr None \<Rightarrow> (w, None)
      | Inr (Some business) \<Rightarrow> routine business telegram_user_id days_before w)"

text \<open>
  One iteration of \<open>for owner_row in owners\<close>. The second component is the exception
  that leaves the iteration, which would end the loop.
\<close>

definition owner_step :: "lookup \<Rightarrow> routine \<Rightarrow> int \<Rightarrow> owner_row \<Rightarrow> world \<Rightarrow> world \<times> error option" where
  "owner_step lookup routine current_hour owner_row w =
     (let reminder_hour = dict_get owner_row ''reminder_hour'' (JInt 10) in
      if \<not> py_eq_int current_hour reminder_hour then (w, None)
      else
        let telegram_user_id = dict_get owner_row ''telegram_user_id'' JNull;
            days_before = dict_get owner_row ''reminder_days_before'' (JInt 7) in
        if \<not> py_truthy telegram_user_id then (w, None)
        else
          (case process_owner lookup routine telegram_user_id days_before w of
             (w', Some exc) \<Rightarrow> (log_add (ErrorProcessingOwner telegram_user_id exc) w', None)
           | (w', None) \<Rightarrow> (w', None)))"

fun for_owners :: "lookup \<Rightarrow> routine \<Rightarrow> int \<Rightarrow> owner_row list \<Rightarrow> world \<Rightarrow> world \<times> error option" where
  "for_owners lookup routine current_hour [] w = (w, None)"
| "for_owners lookup routine current_hour (owner_row # rest) w =
     (case owner_step lookup routine current_hour owner_row w of
        (w', Some exc) \<Rightarrow> (w', Some exc)
      | (w', None) \<Rightarrow> for_owners lookup routine current_hour rest w')"

text \<open>
  The sweep. \<open>is_debug\<close> is \<open>get_settings().is_debug\<close> (the settings are cached at
  start-up), \<open>current_hour\<close> is \<open>datetime.now().hour\<close>, and \<open>owners_response\<close> is the
  answer to GET /owner_profiles with \<open>reminder_enabled=eq.true\<close>: an exception, or a
  status code with the decoded rows.
\<close>

definition send_hourly_reminders ::
  "lookup \<Rightarrow> routine \<Rightarrow> bool \<Rightarrow> int \<Rightarrow> error + nat \<times> owner_row list \<Rightarrow> world \<Rightarrow> world \<times> error option" where
  "send_hourly_reminders lookup routine is_debug current_hour owners_response w =
     (let w0 = (if is_debug then log_add (RunningHourlyCheck current_hour) w else w) in
      case owners_response of
        Inl exc \<Rightarrow> (log_add (ErrorDuringHourlyCheck exc) w0, None)
      | Inr (status_code, owners) \<Rightarrow>
          if status_code \<ge> 400 then (log_add FailedToFetchOwners w0, None)
          else
            (case for_owners lookup routine current_hour owners w0 of
               (w', Some exc) \<Rightarrow> (log_add (ErrorDuringHourlyCheck exc) w', None)
             | (w', None) \<Rightarrow> (log_add HourlyCheckCompleted w', None)))"

section \<open>Lifecycle (SubscriptionReminderScheduler.start and stop)\<close>

text \<open>
  An \<open>AsyncIOScheduler\<close> object of the apscheduler library: whether it runs, and the
  ids of the jobs registered with it. \<open>self.scheduler\<close> is None or the object the
  instance refers to; \<open>unreferenced\<close> holds the objects the instance created earlier
  and no longer refers to (a running one stays alive in the event loop through its
  timer).
\<close>

record aps_scheduler =
  running :: bool
  jobs :: "string list"

record scheduler_state =
  scheduler :: "aps_scheduler option"
  unreferenced :: "aps_scheduler list"
  lifecycle_log :: "log_entry list"

text \<open>\<open>__init__\<close>: \<open>self.scheduler = None\<close>.\<close>

definition init_state :: scheduler_state where
  "init_state = \<lparr>scheduler = None, unreferenced = [], lifecycle_log = []\<rparr>"

text \<open>The library calls that \<open>start\<close> makes on the object it has just created:
  the constructor, \<open>add_job\<close> and \<open>start\<close> (which refuses a scheduler that runs).\<close>

definition aps_new :: aps_scheduler where
  "aps_new = \<lparr>running = False, jobs = []\<rparr>"

definition aps_add_job :: "string \<Rightarrow> aps_scheduler \<Rightarrow> aps_scheduler" where
  "aps_add_job job_id obj = obj\<lparr>jobs := jobs obj @ [job_id]\<rparr>"

definition aps_start :: "aps_scheduler \<Rightarrow> error + aps_scheduler" where
  "aps_start obj =
     (if running obj then Inl (RuntimeError ''SchedulerAlreadyRunningError'')
      else Inr (obj\<lparr>running := True\<rparr>))"

text \<open>
  \<^verbatim>\<open>
  self.scheduler = AsyncIOScheduler()
  self.scheduler.add_job(self._send_hourly_reminders, CronTrigger(minute=0),
                         id="hourly_reminders", name="Hourly Subscription Reminders")
  self.scheduler.start()
  logger.info("Subscription reminder scheduler started")
  \<close>
  The assignment drops the reference to the object that \<open>self.scheduler\<close> held
  before; nothing is called on that object.
\<close>

definition start :: "scheduler_state \<Rightarrow> scheduler_state \<times> error option" where
  "start st =
     (let obj = aps_add_job ''hourly_reminders'' aps_new;
          st1 = st\<lparr>scheduler := Some obj,
                   unreferenced := unreferenced st @
                     (case scheduler st of None \<Rightarrow> [] | Some old \<Rightarrow> [old])\<rparr> in
      case aps_start obj of
        Inl exc \<Rightarrow> (st1, Some exc)
      | Inr obj' \<Rightarrow>
          (st1\<lparr>scheduler := Some obj',
               lifecycle_log := lifecycle_log st1 @ [SchedulerStarted]\<rparr>, None))"

text \<open>
  \<^verbatim>\<open>
  if self.scheduler:
      self.scheduler.shutdown()
      logger.info("Subscription reminder scheduler stopped")
  \<close>
  What the library's \<open>shutdown\<close> does to an object, in particular to one that is
  already shut down, is not decided by this repository: it is the parameter
  \<open>shutdown\<close>. \<open>self.scheduler\<close> is not reset.
\<close>

definition stop :: "(aps_scheduler \<Rightarrow> error + aps_scheduler) \<Rightarrow> scheduler_state \<Rightarrow> scheduler_state \<times> error option" where
  "stop shutdown st =
     (case scheduler st of
        None \<Rightarrow> (st, None)
      | Some obj \<Rightarrow>
          (case shutdown obj of
             Inl exc \<Rightarrow> (st, Some exc)
           | Inr obj' \<Rightarrow>
               (st\<lparr>scheduler := Some obj',
                   lifecycle_log := lifecycle_log st @ [SchedulerStopped]\<rparr>, None)))"

text \<open>The hourly timer registrations that are live in the process: the jobs of every
  library scheduler that runs, referenced by the instance or not.\<close>

definition live_jobs :: "aps_scheduler \<Rightarrow> nat" where
  "live_jobs obj = (if running obj then length (jobs obj) else 0)"

definition timer_registrations :: "scheduler_state \<Rightarrow> nat" where
  "timer_registrations st =
     sum_list (map live_jobs (unreferenced st))
       + (case scheduler st of None \<Rightarrow> 0 | Some obj \<Rightarrow> live_jobs obj)"

section \<open>Auxiliary notions and sample data\<close>

text \<open>A REST call succeeded: no transport exception and a status below 400.\<close>

definition http_ok :: "error + nat \<Rightarrow> bool" where
  "http_ok r = (case r of Inl e \<Rightarrow> False | Inr code \<Rightarrow> code < 400)"

text \<open>Every operation of an invocation succeeds: each REST call is answered with a
  status below 400 and the message is delivered.\<close>

definition all_ok :: "env \<Rightarrow> bool" where
  "all_ok ev = (http_ok (subs_get ev) \<and> http_ok (clients_get ev) \<and> send_result ev = None
                \<and> (\<forall>sid. http_ok (patch ev sid)))"

text \<open>Setting the time stamp on the rows whose id is in a set, and the ids of the due
  subscriptions whose PATCH succeeds.\<close>

definition mark_set :: "datetime \<Rightarrow> string set \<Rightarrow> subscription \<Rightarrow> subscription" where
  "mark_set now S s = (if sub_id s \<in> S then s\<lparr>reminder_sent_at := Some now\<rparr> else s)"

definition marked_ids :: "env \<Rightarrow> subscription list \<Rightarrow> string set" where
  "marked_ids ev due = sub_id ` {d \<in> set due. http_ok (patch ev (sub_id d))}"

text \<open>Sample data: 1 January 2024 is day 738886.\<close>

definition today0 :: date where
  "today0 = 738886"

definition sub_a :: subscription where
  "sub_a = \<lparr>sub_id = ''s1'', business_id = ''b1'', client_id = ''c1'', amount = 3000,
            currency = ''RUB'', start_date = 738863, end_date = 738893, status = ACTIVE,
            reminder_sent_at = None, created_at = 0\<rparr>"

definition sub_b :: subscription where
  "sub_b = \<lparr>sub_id = ''s2'', business_id = ''b1'', client_id = ''c2'', amount = 4500,
            currency = ''RUB'', start_date = 738863, end_date = 738893, status = ACTIVE,
            reminder_sent_at = None, created_at = 0\<rparr>"

definition sub_tomorrow :: subscription where
  "sub_tomorrow = \<lparr>sub_id = ''s3'', business_id = ''b1'', client_id = ''c1'', amount = 3000,
            currency = ''RUB'', start_date = 738857, end_date = 738887, status = ACTIVE,
            reminder_sent_at = None, created_at = 0\<rparr>"

definition sub_frozen :: subscription where
  "sub_frozen = \<lparr>sub_id = ''s4'', business_id = ''b1'', client_id = ''c1'', amount = 3000,
            currency = ''RUB'', start_date = 738863, end_date = 738893, status = FROZEN,
            reminder_sent_at = None, created_at = 0\<rparr>"

definition client_a :: client where
  "client_a = \<lparr>c_id = ''c1'', c_business_id = ''b1'', full_name = ''Anna'',
               phone = ''+70000000000'', c_created_at = 0\<rparr>"

definition world_of :: "subscription list \<Rightarrow> world" where
  "world_of subs = \<lparr>subscriptions = subs, clients = [client_a], outbox = [],
                    mark_requests = [], logs = []\<rparr>"

definition env_ok :: env where
  "env_ok = \<lparr>subs_get = Inr 200, clients_get = Inr 200, send_result = None,
             patch = (\<lambda>sid. Inr 200), patch_returns_rows = True\<rparr>"

text \<open>The store rejects the PATCH for subscription s2 only.\<close>

definition env_patch_s2_fails :: env where
  "env_patch_s2_fails = env_ok\<lparr>patch := (\<lambda>sid. if sid = ''s2'' then Inr 500 else Inr 200)\<rparr>"

text \<open>Two enabled owners due at hour 10: the lookup of the first raises, the second
  owns business b1.\<close>

definition row_fail :: owner_row where
  "row_fail = [''telegram_user_id'' \<mapsto> JInt 222, ''reminder_hour'' \<mapsto> JInt 10,
               ''reminder_days_before'' \<mapsto> JInt 7]"

definition row_b1 :: owner_row where
  "row_b1 = [''telegram_user_id'' \<mapsto> JInt 111]"

definition lookup0 :: lookup where
  "lookup0 tid w =
     (if tid = JInt 222 then Inl NetworkError
      else if tid = JInt 111 then Inr (Some ''b1'') else Inr None)"

text \<open>An owner whose row carries the Telegram id 0, and collaborators that fail: the
  subscriptions cannot be loaded, or the message cannot be sent.\<close>

definition row_zero :: owner_row where
  "row_zero = [''telegram_user_id'' \<mapsto> JInt 0, ''reminder_hour'' \<mapsto> JInt 10]"

definition env_subs_down :: env where
  "env_subs_down = env_ok\<lparr>subs_get := Inl NetworkError\<rparr>"

definition env_send_fails :: env where
  "env_send_fails = env_ok\<lparr>send_result := Some TelegramError\<rparr>"

section \<open>Facts about the store operations and the marking loop\<close>

lemma status_value_active [simp]: "(status_value st = ''active'') = (st = ACTIVE)"
  by (cases st) simp_all

lemma set_list_subscriptions:
  "list_subscriptions_for_business ev bid w = Inr subs \<Longrightarrow>
   set subs = {s \<in> set (subscriptions w). business_id s = bid}"
  by (auto simp: list_subscriptions_for_business_def split: sum.splits if_splits)

lemma list_subscriptions_cong:
  "subscriptions w' = subscriptions w \<Longrightarrow>
   list_subscriptions_for_business ev bid w' = list_subscriptions_for_business ev bid w"
  by (simp add: list_subscriptions_for_business_def split: sum.splits)

lemma set_reminder_as_mark_set: "set_reminder now sid = mark_set now {sid}"
  by (rule ext) (simp add: set_reminder_def mark_set_def)

lemma mark_set_empty [simp]: "map (mark_set now {}) ss = ss"
  by (induction ss) (simp_all add: mark_set_def)

lemma mark_set_twice: "mark_set now A (mark_set now B s) = mark_set now (A \<union> B) s"
  by (simp add: mark_set_def)

lemma mark_one_subscriptions:
  "subscriptions (mark_one ev now sub w) =
     map (mark_set now (if http_ok (patch ev (sub_id sub)) then {sub_id sub} else {})) (subscriptions w)"
  by (simp add: mark_one_def mark_reminder_sent_def log_add_def http_ok_def Let_def
      set_reminder_as_mark_set split: sum.splits list.splits)

lemma mark_one_outbox [simp]: "outbox (mark_one ev now sub w) = outbox w"
  by (simp add: mark_one_def mark_reminder_sent_def log_add_def Let_def split: sum.splits list.splits)

lemma mark_one_clients [simp]: "clients (mark_one ev now sub w) = clients w"
  by (simp add: mark_one_def mark_reminder_sent_def log_add_def Let_def split: sum.splits list.splits)

lemma mark_one_requests [simp]:
  "mark_requests (mark_one ev now sub w) = mark_requests w @ [sub_id sub]"
  by (simp add: mark_one_def mark_reminder_sent_def log_add_def Let_def split: sum.splits list.splits)

lemma mark_each_outbox [simp]: "outbox (mark_each ev now due w) = outbox w"
  by (induction due arbitrary: w) simp_all

lemma mark_each_clients [simp]: "clients (mark_each ev now due w) = clients w"
  by (induction due arbitrary: w) simp_all

lemma mark_each_requests:
  "mark_requests (mark_each ev now due w) = mark_requests w @ map sub_id due"
  by (induction due arbitrary: w) simp_all

lemma marked_ids_Cons:
  "marked_ids ev (d # due) =
     marked_ids ev due \<union> (if http_ok (patch ev (sub_id d)) then {sub_id d} else {})"
  by (auto simp: marked_ids_def)

lemma mark_each_subscriptions:
  "subscriptions (mark_each ev now due w) = map (mark_set now (marked_ids ev due)) (subscriptions w)"
proof (induction due arbitrary: w)
  case Nil
  show ?case by (simp add: marked_ids_def)
next
  case (Cons d due)
  show ?case
    unfolding mark_each.simps Cons.IH mark_one_subscriptions map_map comp_def mark_set_twice
      marked_ids_Cons ..
qed


lemma mark_each_reminder_set:
  assumes "\<forall>d \<in> set due. http_ok (patch ev (sub_id d))"
    and "s' \<in> set (subscriptions (mark_each ev now due w))"
    and "reminder_sent_at s' = None"
  shows "s' \<in> set (subscriptions w) \<and> sub_id s' \<notin> sub_id ` set due"
proof -
  from assms(1) have ids: "marked_ids ev due = sub_id ` set due"
    by (auto simp: marked_ids_def)
  from assms(2) obtain s where s: "s \<in> set (subscriptions w)"
    and s': "s' = mark_set now (sub_id ` set due) s"
    unfolding mark_each_subscriptions ids by auto
  from s' assms(3) have "sub_id s \<notin> sub_id ` set due"
    by (auto simp: mark_set_def split: if_splits)
  with s s' show ?thesis by (simp add: mark_set_def)
qed

lemma all_ok_subs:
  "all_ok ev \<Longrightarrow> \<exists>subs. list_subscriptions_for_business ev bid w = Inr subs"
  by (auto simp: all_ok_def http_ok_def list_subscriptions_for_business_def split: sum.splits)

lemma all_ok_clients:
  "all_ok ev \<Longrightarrow> \<exists>cs. list_clients_for_business ev bid w = Inr cs"
  by (auto simp: all_ok_def http_ok_def list_clients_for_business_def split: sum.splits)

lemma body_subs_fail:
  "list_subscriptions_for_business ev bid w = Inl e \<Longrightarrow>
   reminder_body ev today now bid chat days w = (w, Some e)"
  by (simp add: reminder_body_def)

lemma body_empty:
  "list_subscriptions_for_business ev bid w = Inr subs \<Longrightarrow>
   expiring_today today days subs = [] \<Longrightarrow>
   reminder_body ev today now bid chat days w = (log_add (NoRemindersDue bid) w, None)"
  by (simp add: reminder_body_def)

lemma body_clients_fail:
  "list_subscriptions_for_business ev bid w = Inr subs \<Longrightarrow>
   expiring_today today days subs \<noteq> [] \<Longrightarrow>
   list_clients_for_business ev bid w = Inl e \<Longrightarrow>
   reminder_body ev today now bid chat days w = (w, Some e)"
  by (simp add: reminder_body_def)

lemma body_send_fail:
  "list_subscriptions_for_business ev bid w = Inr subs \<Longrightarrow>
   expiring_today today days subs \<noteq> [] \<Longrightarrow>
   list_clients_for_business ev bid w = Inr cs \<Longrightarrow>
   send_result ev = Some e \<Longrightarrow>
   reminder_body ev today now bid chat days w = (w, Some e)"
  by (simp add: reminder_body_def send_message_def)

lemma body_sent:
  "list_subscriptions_for_business ev bid w = Inr subs \<Longrightarrow>
   expiring_today today days subs \<noteq> [] \<Longrightarrow>
   list_clients_for_business ev bid w = Inr cs \<Longrightarrow>
   send_result ev = None \<Longrightarrow>
   reminder_body ev today now bid chat days w =
     (mark_each ev now (expiring_today today days subs)
        (w\<lparr>outbox := outbox w @
             [\<lparr>chat_id = chat, header_days = days,
               entries = map (entry_of (client_map cs)) (expiring_today today days subs)\<rparr>]\<rparr>),
      None)"
  by (simp add: reminder_body_def send_message_def Let_def)

lemma send_reminder_result:
  "send_reminder_for_business ev today now bid chat days w =
     (case reminder_body ev today now bid chat days w of
        (w', Some exc) \<Rightarrow> (log_add (ErrorSendingReminder exc) w', None)
      | (w', None) \<Rightarrow> (w', None))"
  by (simp add: send_reminder_for_business_def)

lemma send_reminder_fst:
  "outbox (fst (send_reminder_for_business ev today now bid chat days w)) =
     outbox (fst (reminder_body ev today now bid chat days w))
   \<and> subscriptions (fst (send_reminder_for_business ev today now bid chat days w)) =
     subscriptions (fst (reminder_body ev today now bid chat days w))
   \<and> mark_requests (fst (send_reminder_for_business ev today now bid chat days w)) =
     mark_requests (fst (reminder_body ev today now bid chat days w))"
  by (simp add: send_reminder_for_business_def log_add_def split: prod.splits option.splits)

lemma body_outbox_le:
  "length (outbox (fst (reminder_body ev today now bid chat days w))) \<le> Suc (length (outbox w))"
  by (simp add: reminder_body_def send_message_def log_add_def Let_def
      split: sum.splits option.splits)

lemma second_due_empty:
  assumes ok: "all_ok ev1"
    and subs2: "list_subscriptions_for_business ev2 bid
                  (fst (reminder_body ev1 today now1 bid chat days w)) = Inr subs2"
  shows "expiring_today today days subs2 = []"
proof -
  let ?w1 = "fst (reminder_body ev1 today now1 bid chat days w)"
  from all_ok_subs [OF ok] obtain subs
    where subs: "list_subscriptions_for_business ev1 bid w = Inr subs" by blast
  from all_ok_clients [OF ok] obtain cs
    where cs: "list_clients_for_business ev1 bid w = Inr cs" by blast
  from ok have snd: "send_result ev1 = None" by (simp add: all_ok_def)
  let ?due = "expiring_today today days subs"
  have in_due: "s \<in> set ?due" if "s \<in> set (subscriptions w)" "business_id s = bid"
      "s \<in> set (expiring_today today days [s])" for s
    using that set_list_subscriptions [OF subs] by (auto simp: expiring_today_def split: if_splits)
  have "s' \<notin> set (expiring_today today days subs2)" for s'
  proof
    assume a: "s' \<in> set (expiring_today today days subs2)"
    then have s'2: "s' \<in> set (subscriptions ?w1)" "business_id s' = bid"
      and none: "reminder_sent_at s' = None" and one: "s' \<in> set (expiring_today today days [s'])"
      using set_list_subscriptions [OF subs2] by (auto simp: expiring_today_def)
    show False
    proof (cases "?due = []")
      case True
      from body_empty [OF subs True] have "subscriptions ?w1 = subscriptions w"
        by (simp add: log_add_def)
      with s'2 one in_due True show False by auto
    next
      case False
      let ?w0 = "w\<lparr>outbox := outbox w @
             [\<lparr>chat_id = chat, header_days = days,
               entries = map (entry_of (client_map cs)) ?due\<rparr>]\<rparr>"
      from body_sent [OF subs False cs snd] have w1: "?w1 = mark_each ev1 now1 ?due ?w0"
        by simp
      from ok have allp: "\<forall>d \<in> set ?due. http_ok (patch ev1 (sub_id d))"
        by (simp add: all_ok_def)
      from s'2(1) have "s' \<in> set (subscriptions (mark_each ev1 now1 ?due ?w0))"
        unfolding w1 .
      from mark_each_reminder_set [OF allp this none]
      have "s' \<in> set (subscriptions w)" "sub_id s' \<notin> sub_id ` set ?due" by simp_all
      with in_due [of s'] s'2(2) one show False by auto
    qed
  qed
  then show ?thesis by (cases "expiring_today today days subs2") auto
qed

section \<open>The due set of the single-owner routine\<close>

text \<open>
  Claim C1, as the code has it. The spec's window \<open>today \<le> end_date \<le> today + lead_days\<close>
  is not what \<open>send_reminder_for_business\<close> computes: its docstring and its comment say
  "expiring in exactly days_until days", and the comprehension tests
  \<open>(s.end_date - today).days == days_until\<close>. For every store, every \<open>today\<close> and every
  integer lead time \<open>d\<close>, the due set of the routine is, in the order loaded, exactly the
  business's subscriptions that are Active, have no reminder time stamp and end on the
  day \<open>today + d\<close>.
\<close>

theorem C1_due_set_exact_day:
  assumes "list_subscriptions_for_business ev bid w = Inr subs"
  shows "expiring_today today (JInt d) subs =
           filter (\<lambda>s. status s = ACTIVE \<and> reminder_sent_at s = None \<and> end_date s = today + d) subs
       \<and> set (expiring_today today (JInt d) subs) =
           {s \<in> set (subscriptions w). business_id s = bid \<and> status s = ACTIVE
              \<and> reminder_sent_at s = None \<and> end_date s = today + d}"
proof
  show eq: "expiring_today today (JInt d) subs =
      filter (\<lambda>s. status s = ACTIVE \<and> reminder_sent_at s = None \<and> end_date s = today + d) subs"
    unfolding expiring_today_def by (rule filter_cong) auto
  show "set (expiring_today today (JInt d) subs) =
      {s \<in> set (subscriptions w). business_id s = bid \<and> status s = ACTIVE
         \<and> reminder_sent_at s = None \<and> end_date s = today + d}"
    unfolding eq using set_list_subscriptions [OF assms] by auto
qed

theorem C1_due_set_exact_day_witness:
  "list_subscriptions_for_business env_ok ''b1'' (world_of [sub_tomorrow, sub_a, sub_frozen])
     = Inr [sub_tomorrow, sub_a, sub_frozen]
   \<and> expiring_today today0 (JInt 7) [sub_tomorrow, sub_a, sub_frozen] = [sub_a]"
  using C1_due_set_exact_day [of env_ok "''b1''" "world_of [sub_tomorrow, sub_a, sub_frozen]"
      "[sub_tomorrow, sub_a, sub_frozen]" today0 7]
  by (simp add: list_subscriptions_for_business_def env_ok_def world_of_def sub_tomorrow_def
      sub_a_def sub_frozen_def today0_def)

text \<open>
  The claim as the spec states it fails: a subscription of business b1 that is Active,
  was never reminded and ends tomorrow lies inside the seven-day window, and the routine
  called with a lead time of 7 leaves it out of the due set and sends nothing.
\<close>

theorem C1_window_counterexample:
  "status sub_tomorrow = ACTIVE \<and> reminder_sent_at sub_tomorrow = None
   \<and> today0 \<le> end_date sub_tomorrow \<and> end_date sub_tomorrow \<le> today0 + 7
   \<and> list_subscriptions_for_business env_ok ''b1'' (world_of [sub_tomorrow]) = Inr [sub_tomorrow]
   \<and> expiring_today today0 (JInt 7) [sub_tomorrow] = []
   \<and> outbox (fst (send_reminder_for_business env_ok today0 0 ''b1'' (JInt 111) (JInt 7)
                    (world_of [sub_tomorrow]))) = []"
  by (simp add: list_subscriptions_for_business_def env_ok_def world_of_def sub_tomorrow_def
      today0_def expiring_today_def send_reminder_for_business_def reminder_body_def log_add_def)

text \<open>
  Claim C8: a subscription whose status is not Active (Expired, Cancelled or Frozen) is
  never in the due set of the routine, whatever its end date, its reminder time stamp
  and the lead time.
\<close>

theorem C8_inactive_never_due:
  "status s \<noteq> ACTIVE \<Longrightarrow> s \<notin> set (expiring_today today days_until subs)"
  by (simp add: expiring_today_def)

theorem C8_inactive_never_due_witness:
  "status sub_frozen \<noteq> ACTIVE \<and> end_date sub_frozen - today0 = 7
   \<and> sub_frozen \<notin> set (expiring_today today0 (JInt 7) [sub_a, sub_frozen])"
  using C8_inactive_never_due [of sub_frozen today0 "JInt 7" "[sub_a, sub_frozen]"]
  by (simp add: sub_frozen_def today0_def)

text \<open>
  Claim C9, as the code has it. \<open>list_expiring_subscriptions\<close> selects a window ("expiring
  within N days") and the routine a single day ("expiring in exactly days_until days"),
  so the two filters differ. For a lead time that is not negative, whenever
  \<open>list_expiring_subscriptions\<close> returns, the routine's filter on the same load selects
  exactly those of its results that end on the cutoff day \<open>today + days_until\<close>.
\<close>

theorem C9_inline_filter_is_last_day_of_window:
  assumes "0 \<le> d"
    and "list_expiring_subscriptions ev today bid d w = Inr xs"
    and "list_subscriptions_for_business ev bid w = Inr subs"
  shows "expiring_today today (JInt d) subs = filter (\<lambda>s. end_date s = today + d) xs"
proof -
  from assms(2,3) have xs: "xs = expiring_within today (today + d) subs"
    by (auto simp: list_expiring_subscriptions_def add_days_def split: if_splits sum.splits)
  show ?thesis
    unfolding xs expiring_today_def expiring_within_def filter_filter
    using assms(1) by (intro filter_cong) auto
qed

theorem C9_inline_filter_is_last_day_of_window_witness:
  "(0::int) \<le> 7
   \<and> list_expiring_subscriptions env_ok today0 ''b1'' 7 (world_of [sub_tomorrow, sub_a])
       = Inr [sub_tomorrow, sub_a]
   \<and> list_subscriptions_for_business env_ok ''b1'' (world_of [sub_tomorrow, sub_a])
       = Inr [sub_tomorrow, sub_a]
   \<and> expiring_today today0 (JInt 7) [sub_tomorrow, sub_a] = [sub_a]"
  using C9_inline_filter_is_last_day_of_window [of 7 env_ok today0 "''b1''"
      "world_of [sub_tomorrow, sub_a]" "[sub_tomorrow, sub_a]" "[sub_tomorrow, sub_a]"]
  by (simp add: list_expiring_subscriptions_def list_subscriptions_for_business_def
      add_days_def date_min_def date_max_def expiring_within_def env_ok_def world_of_def
      sub_tomorrow_def sub_a_def today0_def)

text \<open>The claim as stated fails: on a subscription that ends tomorrow, with seven days
  of lead time, \<open>list_expiring_subscriptions\<close> selects it and the routine's filter does
  not.\<close>

theorem C9_same_subset_counterexample:
  "list_subscriptions_for_business env_ok ''b1'' (world_of [sub_tomorrow]) = Inr [sub_tomorrow]
   \<and> list_expiring_subscriptions env_ok today0 ''b1'' 7 (world_of [sub_tomorrow]) = Inr [sub_tomorrow]
   \<and> expiring_today today0 (JInt 7) [sub_tomorrow] = []"
  by (simp add: list_expiring_subscriptions_def list_subscriptions_for_business_def
      add_days_def date_min_def date_max_def expiring_within_def expiring_today_def env_ok_def
      world_of_def sub_tomorrow_def today0_def)

section \<open>The single-owner routine: idempotence and failures\<close>

text \<open>
  Claim C2: when every operation of a first invocation succeeds, that invocation sends
  at most one notification, and a second invocation for the same business, the same day
  and the same lead time, run on the world the first one left, sends none, however its
  own collaborators answer: every subscription the first call included now carries a
  reminder time stamp.
\<close>

theorem C2_second_call_sends_nothing:
  assumes ok: "all_ok ev1"
  shows "length (outbox (fst (send_reminder_for_business ev1 today now1 bid chat days w)))
           \<le> length (outbox w) + 1
       \<and> outbox (fst (send_reminder_for_business ev2 today now2 bid chat days
                        (fst (send_reminder_for_business ev1 today now1 bid chat days w))))
         = outbox (fst (send_reminder_for_business ev1 today now1 bid chat days w))"
proof
  show "length (outbox (fst (send_reminder_for_business ev1 today now1 bid chat days w)))
           \<le> length (outbox w) + 1"
    using body_outbox_le [of ev1 today now1 bid chat days w] by (simp add: send_reminder_fst)
next
  let ?b1 = "fst (reminder_body ev1 today now1 bid chat days w)"
  let ?w1 = "fst (send_reminder_for_business ev1 today now1 bid chat days w)"
  have same: "subscriptions ?w1 = subscriptions ?b1" by (simp add: send_reminder_fst)
  have "outbox (fst (reminder_body ev2 today now2 bid chat days ?w1)) = outbox ?w1"
  proof (cases "list_subscriptions_for_business ev2 bid ?w1")
    case (Inl e)
    then show ?thesis by (simp add: body_subs_fail)
  next
    case (Inr subs2)
    then have "list_subscriptions_for_business ev2 bid ?b1 = Inr subs2"
      using list_subscriptions_cong [OF same] by simp
    from second_due_empty [OF ok this] have "expiring_today today days subs2 = []" .
    from body_empty [OF Inr this] show ?thesis by (simp add: log_add_def)
  qed
  then show "outbox (fst (send_reminder_for_business ev2 today now2 bid chat days ?w1)) = outbox ?w1"
    by (simp add: send_reminder_fst)
qed

theorem C2_second_call_sends_nothing_witness:
  "all_ok env_ok
   \<and> length (outbox (fst (send_reminder_for_business env_ok today0 5 ''b1'' (JInt 111) (JInt 7)
                            (world_of [sub_a, sub_b])))) = 1
   \<and> length (outbox (fst (send_reminder_for_business env_ok today0 6 ''b1'' (JInt 111) (JInt 7)
        (fst (send_reminder_for_business env_ok today0 5 ''b1'' (JInt 111) (JInt 7)
               (world_of [sub_a, sub_b])))))) = 1"
proof -
  have ok: "all_ok env_ok"
    by (simp add: all_ok_def http_ok_def env_ok_def)
  have one: "length (outbox (fst (send_reminder_for_business env_ok today0 5 ''b1'' (JInt 111)
                 (JInt 7) (world_of [sub_a, sub_b])))) = 1"
    by (simp add: send_reminder_fst reminder_body_def list_subscriptions_for_business_def
        list_clients_for_business_def send_message_def expiring_today_def env_ok_def
        world_of_def sub_a_def sub_b_def today0_def Let_def)
  from C2_second_call_sends_nothing [OF ok, of today0 5 "''b1''" "JInt 111" "JInt 7"
      "world_of [sub_a, sub_b]" env_ok 6] ok one
  show ?thesis by simp
qed

text \<open>
  Claim C3, as the code has it. The whole body of the routine sits in
  \<open>try ... except Exception\<close>, which logs and returns. When loading the subscriptions
  fails, or loading the clients fails once the due set is not empty, the routine does
  not raise: it returns normally, and the world it leaves is the one it found with the
  line "Error sending reminder" added to the log (nothing sent, nothing marked).
\<close>

theorem C3_load_failure_is_swallowed:
  assumes "list_subscriptions_for_business ev bid w = Inl e
         \<or> (\<exists>subs. list_subscriptions_for_business ev bid w = Inr subs
               \<and> expiring_today today days subs \<noteq> []
               \<and> list_clients_for_business ev bid w = Inl e)"
  shows "send_reminder_for_business ev today now bid chat days w
           = (log_add (ErrorSendingReminder e) w, None)"
  using assms
  by (auto simp: send_reminder_result body_subs_fail body_clients_fail)

theorem C3_load_failure_is_swallowed_witness:
  "list_subscriptions_for_business env_subs_down ''b1'' (world_of [sub_a]) = Inl NetworkError
   \<and> send_reminder_for_business env_subs_down today0 5 ''b1'' (JInt 111) (JInt 7) (world_of [sub_a])
       = (log_add (ErrorSendingReminder NetworkError) (world_of [sub_a]), None)"
proof -
  have f: "list_subscriptions_for_business env_subs_down ''b1'' (world_of [sub_a]) = Inl NetworkError"
    by (simp add: list_subscriptions_for_business_def env_subs_down_def env_ok_def)
  from C3_load_failure_is_swallowed [of env_subs_down "''b1''" "world_of [sub_a]" NetworkError
      today0 "JInt 7" 5 "JInt 111"] f
  show ?thesis by simp
qed

text \<open>The claim as stated fails: the store is unreachable when the subscriptions are
  loaded, and the routine raises nothing to its caller.\<close>

theorem C3_propagation_counterexample:
  "list_subscriptions_for_business env_subs_down ''b1'' (world_of [sub_a]) = Inl NetworkError
   \<and> snd (send_reminder_for_business env_subs_down today0 5 ''b1'' (JInt 111) (JInt 7)
            (world_of [sub_a])) = None"
  by (simp add: list_subscriptions_for_business_def env_subs_down_def env_ok_def
      send_reminder_for_business_def reminder_body_def)

text \<open>
  Claim C4, as the code has it. When \<open>bot.send_message\<close> fails, the routine attempts no
  marking: no PATCH request is issued, every subscription keeps its reminder time stamp
  and nothing is delivered. The failure is not propagated: the routine logs it and
  returns normally.
\<close>

theorem C4_send_failure_marks_nothing:
  assumes "send_result ev = Some e"
  shows "snd (send_reminder_for_business ev today now bid chat days w) = None
       \<and> subscriptions (fst (send_reminder_for_business ev today now bid chat days w)) = subscriptions w
       \<and> mark_requests (fst (send_reminder_for_business ev today now bid chat days w)) = mark_requests w
       \<and> outbox (fst (send_reminder_for_business ev today now bid chat days w)) = outbox w
       \<and> (\<forall>subs cs. list_subscriptions_for_business ev bid w = Inr subs
             \<and> expiring_today today days subs \<noteq> []
             \<and> list_clients_for_business ev bid w = Inr cs
           \<longrightarrow> send_reminder_for_business ev today now bid chat days w
                 = (log_add (ErrorSendingReminder e) w, None))"
proof -
  have r: "snd (send_reminder_for_business ev today now bid chat days w) = None"
    by (simp add: send_reminder_for_business_def split: prod.splits option.splits)
  have b: "subscriptions (fst (reminder_body ev today now bid chat days w)) = subscriptions w
      \<and> mark_requests (fst (reminder_body ev today now bid chat days w)) = mark_requests w
      \<and> outbox (fst (reminder_body ev today now bid chat days w)) = outbox w"
    using assms
    by (simp add: reminder_body_def send_message_def log_add_def Let_def split: sum.splits)
  have l: "\<forall>subs cs. list_subscriptions_for_business ev bid w = Inr subs
             \<and> expiring_today today days subs \<noteq> []
             \<and> list_clients_for_business ev bid w = Inr cs
           \<longrightarrow> send_reminder_for_business ev today now bid chat days w
                 = (log_add (ErrorSendingReminder e) w, None)"
    using assms by (auto simp: send_reminder_result body_send_fail)
  from r b l show ?thesis by (simp add: send_reminder_fst)
qed

theorem C4_send_failure_marks_nothing_witness:
  "send_result env_send_fails = Some TelegramError
   \<and> send_reminder_for_business env_send_fails today0 5 ''b1'' (JInt 111) (JInt 7)
        (world_of [sub_a, sub_b])
       = (log_add (ErrorSendingReminder TelegramError) (world_of [sub_a, sub_b]), None)"
proof -
  have s: "send_result env_send_fails = Some TelegramError"
    by (simp add: env_send_fails_def)
  have subs: "list_subscriptions_for_business env_send_fails ''b1'' (world_of [sub_a, sub_b])
      = Inr [sub_a, sub_b]"
    by (simp add: list_subscriptions_for_business_def env_send_fails_def env_ok_def world_of_def
        sub_a_def sub_b_def)
  have due: "expiring_today today0 (JInt 7) [sub_a, sub_b] \<noteq> []"
    by (simp add: expiring_today_def sub_a_def today0_def)
  have cs: "list_clients_for_business env_send_fails ''b1'' (world_of [sub_a, sub_b]) = Inr [client_a]"
    by (simp add: list_clients_for_business_def env_send_fails_def env_ok_def world_of_def
        client_a_def)
  from C4_send_failure_marks_nothing [OF s, of today0 5 "''b1''" "JInt 111" "JInt 7"
      "world_of [sub_a, sub_b]"] s subs due cs
  show ?thesis by blast
qed

text \<open>The claim as stated fails: two subscriptions are due, the send fails with a
  Telegram error, and the routine raises nothing to its caller.\<close>

theorem C4_propagation_counterexample:
  "send_result env_send_fails = Some TelegramError
   \<and> expiring_today today0 (JInt 7) [sub_a, sub_b] = [sub_a, sub_b]
   \<and> snd (send_reminder_for_business env_send_fails today0 5 ''b1'' (JInt 111) (JInt 7)
            (world_of [sub_a, sub_b])) = None"
  by (simp add: env_send_fails_def expiring_today_def sub_a_def sub_b_def today0_def
      send_reminder_for_business_def split: prod.splits option.splits)

text \<open>
  Claim C7: once the aggregated notification is sent, the routine issues one PATCH per
  included subscription, in order, whatever the outcome of the others; exactly one
  message is appended to the delivered ones; the subscriptions whose PATCH succeeds
  carry the time stamp afterwards and all others are as before; the routine returns
  normally.
\<close>

theorem C7_markings_are_independent:
  assumes "list_subscriptions_for_business ev bid w = Inr subs"
    and "expiring_today today days subs \<noteq> []"
    and "list_clients_for_business ev bid w = Inr cs"
    and "send_result ev = None"
  shows "snd (send_reminder_for_business ev today now bid chat days w) = None
       \<and> outbox (fst (send_reminder_for_business ev today now bid chat days w))
           = outbox w @ [\<lparr>chat_id = chat, header_days = days,
                           entries = map (entry_of (client_map cs)) (expiring_today today days subs)\<rparr>]
       \<and> mark_requests (fst (send_reminder_for_business ev today now bid chat days w))
           = mark_requests w @ map sub_id (expiring_today today days subs)
       \<and> subscriptions (fst (send_reminder_for_business ev today now bid chat days w))
           = map (mark_set now (marked_ids ev (expiring_today today days subs))) (subscriptions w)"
  by (simp add: send_reminder_result body_sent [OF assms] mark_each_requests
      mark_each_subscriptions)

theorem C7_markings_are_independent_witness:
  "list_subscriptions_for_business env_patch_s2_fails ''b1'' (world_of [sub_a, sub_b])
     = Inr [sub_a, sub_b]
   \<and> expiring_today today0 (JInt 7) [sub_a, sub_b] = [sub_a, sub_b]
   \<and> outbox (fst (send_reminder_for_business env_patch_s2_fails today0 5 ''b1'' (JInt 111)
                    (JInt 7) (world_of [sub_a, sub_b])))
       = [\<lparr>chat_id = JInt 111, header_days = JInt 7,
           entries = [(''Anna'', 738893, 3000, ''RUB''), (''Unknown'', 738893, 4500, ''RUB'')]\<rparr>]
   \<and> mark_requests (fst (send_reminder_for_business env_patch_s2_fails today0 5 ''b1'' (JInt 111)
                    (JInt 7) (world_of [sub_a, sub_b]))) = [''s1'', ''s2'']
   \<and> subscriptions (fst (send_reminder_for_business env_patch_s2_fails today0 5 ''b1'' (JInt 111)
                    (JInt 7) (world_of [sub_a, sub_b])))
       = [sub_a\<lparr>reminder_sent_at := Some 5\<rparr>, sub_b]"
proof -
  have subs: "list_subscriptions_for_business env_patch_s2_fails ''b1'' (world_of [sub_a, sub_b])
      = Inr [sub_a, sub_b]"
    by (simp add: list_subscriptions_for_business_def env_patch_s2_fails_def env_ok_def
        world_of_def sub_a_def sub_b_def)
  have due: "expiring_today today0 (JInt 7) [sub_a, sub_b] = [sub_a, sub_b]"
    by (simp add: expiring_today_def sub_a_def sub_b_def today0_def)
  have cs: "list_clients_for_business env_patch_s2_fails ''b1'' (world_of [sub_a, sub_b])
      = Inr [client_a]"
    by (simp add: list_clients_for_business_def env_patch_s2_fails_def env_ok_def world_of_def
        client_a_def)
  have snd: "send_result env_patch_s2_fails = None"
    by (simp add: env_patch_s2_fails_def env_ok_def)
  have ids: "marked_ids env_patch_s2_fails [sub_a, sub_b] = {''s1''}"
  proof -
    have "marked_ids env_patch_s2_fails [] = {}"
      by (simp add: marked_ids_def)
    then show ?thesis
      by (simp add: marked_ids_Cons env_patch_s2_fails_def env_ok_def http_ok_def sub_a_def
          sub_b_def)
  qed
  have ents: "map (entry_of (client_map [client_a])) [sub_a, sub_b]
      = [(''Anna'', 738893, 3000, ''RUB''), (''Unknown'', 738893, 4500, ''RUB'')]"
    by (simp add: entry_of_def client_map_def client_a_def sub_a_def sub_b_def)
  have marked: "map (mark_set 5 {''s1''}) (subscriptions (world_of [sub_a, sub_b]))
      = [sub_a\<lparr>reminder_sent_at := Some 5\<rparr>, sub_b]"
    by (simp add: mark_set_def world_of_def sub_a_def sub_b_def)
  have nodue: "expiring_today today0 (JInt 7) [sub_a, sub_b] \<noteq> []"
    by (simp add: due)
  have ids2: "map sub_id [sub_a, sub_b] = [''s1'', ''s2'']"
    by (simp add: sub_a_def sub_b_def)
  have empty: "outbox (world_of [sub_a, sub_b]) = []" "mark_requests (world_of [sub_a, sub_b]) = []"
    by (simp_all add: world_of_def)
  from C7_markings_are_independent [OF subs nodue cs snd, of 5 "JInt 111"]
  show ?thesis
    unfolding due ids ents marked ids2 empty using subs by simp
qed

section \<open>The hourly sweep\<close>

lemma owner_step_returns: "snd (owner_step lookup routine h row w) = None"
  by (simp add: owner_step_def Let_def split: prod.splits option.splits)

lemma for_owners_foldl:
  "for_owners lookup routine h rows w
     = (foldl (\<lambda>w row. fst (owner_step lookup routine h row w)) w rows, None)"
proof (induction rows arbitrary: w)
  case Nil
  show ?case by simp
next
  case (Cons row rows)
  obtain w' where step: "owner_step lookup routine h row w = (w', None)"
    using owner_step_returns [of lookup routine h row w]
    by (cases "owner_step lookup routine h row w") auto
  show ?case by (simp add: step Cons.IH)
qed

lemma log_add_fields:
  "logs (log_add e w) = logs w @ [e]"
  "outbox (log_add e w) = outbox w"
  "mark_requests (log_add e w) = mark_requests w"
  "subscriptions (log_add e w) = subscriptions w"
  "clients (log_add e w) = clients w"
  by (simp_all add: log_add_def)

lemma sweep_result:
  "send_hourly_reminders lookup routine is_debug h owners_response w =
     (case owners_response of
        Inl exc \<Rightarrow>
          (log_add (ErrorDuringHourlyCheck exc)
             (if is_debug then log_add (RunningHourlyCheck h) w else w), None)
      | Inr (code, rows) \<Rightarrow>
          if code \<ge> 400
          then (log_add FailedToFetchOwners
                  (if is_debug then log_add (RunningHourlyCheck h) w else w), None)
          else (log_add HourlyCheckCompleted
                  (foldl (\<lambda>w row. fst (owner_step lookup routine h row w))
                     (if is_debug then log_add (RunningHourlyCheck h) w else w) rows), None))"
  by (simp add: send_hourly_reminders_def for_owners_foldl Let_def split: sum.splits prod.splits)

text \<open>
  Claim C6: the sweep never raises to its caller, whatever the store answers, whatever
  the owner rows are and however the two per-owner collaborators behave. When the
  owners are fetched (a status below 400), the sweep runs the step of every row, in
  order, each on the world the previous one left, and ends with "Hourly reminder check
  completed"; the loop itself never ends early. An exception raised while an owner due
  at this hour is processed is logged with that owner's Telegram id, the step ending
  normally on the world the failed processing left, so that the rows after it are
  processed in the same sweep.
\<close>

theorem C6_sweep_isolates_owner_failures:
  "snd (send_hourly_reminders lookup routine is_debug h owners_response w) = None
   \<and> (code < 400 \<longrightarrow>
        send_hourly_reminders lookup routine is_debug h (Inr (code, rows)) w
          = (log_add HourlyCheckCompleted
               (foldl (\<lambda>w row. fst (owner_step lookup routine h row w))
                  (if is_debug then log_add (RunningHourlyCheck h) w else w) rows), None))
   \<and> for_owners lookup routine h rows w
       = (foldl (\<lambda>w row. fst (owner_step lookup routine h row w)) w rows, None)
   \<and> (py_eq_int h (dict_get row ''reminder_hour'' (JInt 10))
        \<and> py_truthy (dict_get row ''telegram_user_id'' JNull)
        \<and> process_owner lookup routine (dict_get row ''telegram_user_id'' JNull)
             (dict_get row ''reminder_days_before'' (JInt 7)) w = (w', Some exc)
      \<longrightarrow> owner_step lookup routine h row w
            = (log_add (ErrorProcessingOwner (dict_get row ''telegram_user_id'' JNull) exc) w', None))"
proof (intro conjI)
  show "snd (send_hourly_reminders lookup routine is_debug h owners_response w) = None"
    by (simp add: sweep_result split: sum.splits prod.splits)
  show "code < 400 \<longrightarrow>
        send_hourly_reminders lookup routine is_debug h (Inr (code, rows)) w
          = (log_add HourlyCheckCompleted
               (foldl (\<lambda>w row. fst (owner_step lookup routine h row w))
                  (if is_debug then log_add (RunningHourlyCheck h) w else w) rows), None)"
    by (simp add: sweep_result)
  show "for_owners lookup routine h rows w
       = (foldl (\<lambda>w row. fst (owner_step lookup routine h row w)) w rows, None)"
    by (rule for_owners_foldl)
  show "py_eq_int h (dict_get row ''reminder_hour'' (JInt 10))
        \<and> py_truthy (dict_get row ''telegram_user_id'' JNull)
        \<and> process_owner lookup routine (dict_get row ''telegram_user_id'' JNull)
             (dict_get row ''reminder_days_before'' (JInt 7)) w = (w', Some exc)
      \<longrightarrow> owner_step lookup routine h row w
            = (log_add (ErrorProcessingOwner (dict_get row ''telegram_user_id'' JNull) exc) w', None)"
    by (simp add: owner_step_def Let_def)
qed

text \<open>
  The sweep at hour 10 over two enabled owners, both due: the lookup of the first
  raises, the second owns a business with one due subscription. The sweep returns
  normally; the failure of the first owner is logged, and the second owner still gets
  the notification and the marking.
\<close>

theorem C6_sweep_isolates_owner_failures_witness:
  "process_owner lookup0 (send_reminder_for_business env_ok today0 5) (JInt 222) (JInt 7)
       (world_of [sub_a]) = (world_of [sub_a], Some NetworkError)
   \<and> owner_step lookup0 (send_reminder_for_business env_ok today0 5) 10 row_fail (world_of [sub_a])
       = (log_add (ErrorProcessingOwner (JInt 222) NetworkError) (world_of [sub_a]), None)
   \<and> snd (for_owners lookup0 (send_reminder_for_business env_ok today0 5) 10 [row_fail, row_b1]
            (world_of [sub_a])) = None
   \<and> map chat_id (outbox (fst (for_owners lookup0 (send_reminder_for_business env_ok today0 5) 10
        [row_fail, row_b1] (world_of [sub_a])))) = [JInt 111]
   \<and> snd (send_hourly_reminders lookup0 (send_reminder_for_business env_ok today0 5) False 10
            (Inr (200, [row_fail, row_b1])) (world_of [sub_a])) = None
   \<and> map chat_id (outbox (fst (send_hourly_reminders lookup0
        (send_reminder_for_business env_ok today0 5) False 10
        (Inr (200, [row_fail, row_b1])) (world_of [sub_a])))) = [JInt 111]
   \<and> mark_requests (fst (send_hourly_reminders lookup0
        (send_reminder_for_business env_ok today0 5) False 10
        (Inr (200, [row_fail, row_b1])) (world_of [sub_a]))) = [''s1'']
   \<and> map reminder_sent_at (subscriptions (fst (send_hourly_reminders lookup0
        (send_reminder_for_business env_ok today0 5) False 10
        (Inr (200, [row_fail, row_b1])) (world_of [sub_a])))) = [Some 5]
   \<and> logs (fst (send_hourly_reminders lookup0
        (send_reminder_for_business env_ok today0 5) False 10
        (Inr (200, [row_fail, row_b1])) (world_of [sub_a])))
       = [ErrorProcessingOwner (JInt 222) NetworkError, MarkedReminderSent ''s1'',
          HourlyCheckCompleted]"
proof -
  let ?R = "send_reminder_for_business env_ok today0 5"
  let ?w = "world_of [sub_a]"
  let ?w1 = "log_add (ErrorProcessingOwner (JInt 222) NetworkError) ?w"
  let ?w2 = "fst (owner_step lookup0 ?R 10 row_b1 ?w1)"
  have get: "dict_get row_fail ''reminder_hour'' (JInt 10) = JInt 10"
    "dict_get row_fail ''telegram_user_id'' JNull = JInt 222"
    "dict_get row_fail ''reminder_days_before'' (JInt 7) = JInt 7"
    by (simp_all add: dict_get_def row_fail_def)
  have p: "process_owner lookup0 ?R (JInt 222) (JInt 7) ?w = (?w, Some NetworkError)"
    by (simp add: process_owner_def lookup0_def)
  note sweep = C6_sweep_isolates_owner_failures [of lookup0 ?R False 10
      "Inr (200, [row_fail, row_b1])" ?w 200 "[row_fail, row_b1]" row_fail ?w NetworkError]
  have ret: "snd (send_hourly_reminders lookup0 ?R False 10 (Inr (200, [row_fail, row_b1])) ?w) = None"
    by (rule sweep [THEN conjunct1])
  have s1: "owner_step lookup0 ?R 10 row_fail ?w = (?w1, None)"
    using sweep [THEN conjunct2, THEN conjunct2, THEN conjunct2] by (simp add: get p)
  have whole: "send_hourly_reminders lookup0 ?R False 10 (Inr (200, [row_fail, row_b1])) ?w
      = (log_add HourlyCheckCompleted ?w2, None)"
    using sweep [THEN conjunct2, THEN conjunct1] by (simp add: s1)
  have all: "for_owners lookup0 ?R 10 [row_fail, row_b1] ?w = (?w2, None)"
    using sweep [THEN conjunct2, THEN conjunct2, THEN conjunct1] by (simp add: s1)
  have step2: "owner_step lookup0 ?R 10 row_b1 ?w1 = ?R ''b1'' (JInt 111) (JInt 7) ?w1"
    by (simp add: owner_step_def dict_get_def row_b1_def process_owner_def lookup0_def
        send_reminder_for_business_def split: prod.splits option.splits)
  have subs: "list_subscriptions_for_business env_ok ''b1'' ?w1 = Inr [sub_a]"
    by (simp add: list_subscriptions_for_business_def env_ok_def world_of_def log_add_def
        sub_a_def)
  have due: "expiring_today today0 (JInt 7) [sub_a] = [sub_a]"
    by (simp add: expiring_today_def sub_a_def today0_def)
  have cs: "list_clients_for_business env_ok ''b1'' ?w1 = Inr [client_a]"
    by (simp add: list_clients_for_business_def env_ok_def world_of_def log_add_def client_a_def)
  have body: "reminder_body env_ok today0 5 ''b1'' (JInt 111) (JInt 7) ?w1
      = (mark_each env_ok 5 [sub_a]
           (?w1\<lparr>outbox := outbox ?w1 @
               [\<lparr>chat_id = JInt 111, header_days = JInt 7,
                 entries = map (entry_of (client_map [client_a])) [sub_a]\<rparr>]\<rparr>), None)"
    using body_sent [OF subs _ cs, of today0 "JInt 7" 5 "JInt 111"]
    by (simp add: due env_ok_def)
  have w2: "?w2 = mark_each env_ok 5 [sub_a]
           (?w1\<lparr>outbox := outbox ?w1 @
               [\<lparr>chat_id = JInt 111, header_days = JInt 7,
                 entries = map (entry_of (client_map [client_a])) [sub_a]\<rparr>]\<rparr>)"
    by (simp add: step2 send_reminder_result body)
  have out: "map chat_id (outbox ?w2) = [JInt 111]"
    unfolding w2 by (simp add: world_of_def log_add_def)
  have req: "mark_requests ?w2 = [''s1'']"
    unfolding w2 by (simp add: mark_each_requests world_of_def log_add_def sub_a_def)
  have stamps: "map reminder_sent_at (subscriptions ?w2) = [Some 5]"
    unfolding w2
    by (simp add: mark_one_def mark_reminder_sent_def set_reminder_def env_ok_def world_of_def
        log_add_def sub_a_def Let_def)
  have lg: "logs ?w2 = [ErrorProcessingOwner (JInt 222) NetworkError, MarkedReminderSent ''s1'']"
    unfolding w2
    by (simp add: mark_one_def mark_reminder_sent_def set_reminder_def env_ok_def world_of_def
        log_add_def sub_a_def Let_def)
  show ?thesis
    unfolding whole all by (simp add: p s1 out req stamps lg log_add_fields)
qed

text \<open>
  Claim C10: in the sweep, a row without \<open>reminder_hour\<close> is handled as the same row
  with hour 10, a row without \<open>reminder_days_before\<close> as the same row with a lead time
  of 7 days, and a row whose \<open>telegram_user_id\<close> is missing or zero is skipped: its
  step returns the world untouched (no lookup, no send, no marking) and the loop goes
  on with the remaining rows.
\<close>

theorem C10_owner_row_defaults:
  "(row ''reminder_hour'' = None \<longrightarrow>
      owner_step lookup routine h row w
        = owner_step lookup routine h (row(''reminder_hour'' \<mapsto> JInt 10)) w)
   \<and> (row ''reminder_days_before'' = None \<longrightarrow>
      owner_step lookup routine h row w
        = owner_step lookup routine h (row(''reminder_days_before'' \<mapsto> JInt 7)) w)
   \<and> (row ''telegram_user_id'' = None \<or> row ''telegram_user_id'' = Some (JInt 0) \<longrightarrow>
      owner_step lookup routine h row w = (w, None)
      \<and> for_owners lookup routine h (row # rest) w = for_owners lookup routine h rest w)"
  by (auto simp: owner_step_def dict_get_def Let_def)

theorem C10_owner_row_defaults_witness:
  "row_b1 ''reminder_hour'' = None \<and> row_b1 ''reminder_days_before'' = None
   \<and> row_zero ''telegram_user_id'' = Some (JInt 0)
   \<and> map header_days (outbox (fst (owner_step lookup0 (send_reminder_for_business env_ok today0 5)
        10 row_b1 (world_of [sub_a])))) = [JInt 7]
   \<and> outbox (fst (owner_step lookup0 (send_reminder_for_business env_ok today0 5)
        11 row_b1 (world_of [sub_a]))) = []
   \<and> owner_step lookup0 (send_reminder_for_business env_ok today0 5) 10 row_zero (world_of [sub_a])
       = (world_of [sub_a], None)"
proof -
  let ?R = "send_reminder_for_business env_ok today0 5"
  let ?w = "world_of [sub_a]"
  have none: "row_b1 ''reminder_hour'' = None" "row_b1 ''reminder_days_before'' = None"
    and zero: "row_zero ''telegram_user_id'' = Some (JInt 0)"
    by (simp_all add: row_b1_def row_zero_def)
  have full: "map header_days (outbox (fst (owner_step lookup0 ?R 10
      (row_b1(''reminder_hour'' \<mapsto> JInt 10, ''reminder_days_before'' \<mapsto> JInt 7)) ?w))) = [JInt 7]"
    by (simp add: owner_step_def dict_get_def row_b1_def process_owner_def lookup0_def
        send_reminder_for_business_def reminder_body_def list_subscriptions_for_business_def
        list_clients_for_business_def send_message_def expiring_today_def env_ok_def
        world_of_def sub_a_def today0_def Let_def)
  have late: "outbox (fst (owner_step lookup0 ?R 11 (row_b1(''reminder_hour'' \<mapsto> JInt 10)) ?w)) = []"
    by (simp add: owner_step_def dict_get_def world_of_def)
  have none': "(row_b1(''reminder_hour'' \<mapsto> JInt 10)) ''reminder_days_before'' = None"
    by (simp add: row_b1_def)
  from C10_owner_row_defaults [of row_b1 lookup0 ?R 10 ?w "[]"]
    C10_owner_row_defaults [of "row_b1(''reminder_hour'' \<mapsto> JInt 10)" lookup0 ?R 10 ?w "[]"]
    C10_owner_row_defaults [of row_b1 lookup0 ?R 11 ?w "[]"]
    C10_owner_row_defaults [of row_zero lookup0 ?R 10 ?w "[]"]
  show ?thesis
    by (simp add: none none' zero full late)
qed

section \<open>Lifecycle\<close>

lemma start_result:
  "start st =
     (st\<lparr>scheduler := Some \<lparr>running = True, jobs = [''hourly_reminders'']\<rparr>,
         unreferenced := unreferenced st @ (case scheduler st of None \<Rightarrow> [] | Some old \<Rightarrow> [old]),
         lifecycle_log := lifecycle_log st @ [SchedulerStarted]\<rparr>, None)"
  by (simp add: start_def aps_start_def aps_add_job_def aps_new_def Let_def)

text \<open>
  Claim C5, as the code has it. \<open>start\<close> never raises, but it is not idempotent: every
  call creates a library scheduler with exactly one hourly registration, starts it and
  makes it the instance's current one, and shuts nothing down, so that the live
  registrations of the process grow by one with each call. \<open>stop\<close> on an instance that
  was never started is a no-op, and \<open>stop\<close> never reaches the schedulers that earlier
  calls of \<open>start\<close> left behind.
\<close>

theorem C5_start_registers_one_more_timer:
  "snd (start st) = None
   \<and> scheduler (fst (start st)) = Some \<lparr>running = True, jobs = [''hourly_reminders'']\<rparr>
   \<and> timer_registrations (fst (start st)) = timer_registrations st + 1
   \<and> (scheduler st = None \<longrightarrow> stop shutdown st = (st, None))
   \<and> unreferenced (fst (stop shutdown st)) = unreferenced st"
proof (intro conjI)
  show "snd (start st) = None" by (simp add: start_result)
  show "scheduler (fst (start st)) = Some \<lparr>running = True, jobs = [''hourly_reminders'']\<rparr>"
    by (simp add: start_result)
  show "timer_registrations (fst (start st)) = timer_registrations st + 1"
    by (simp add: start_result timer_registrations_def live_jobs_def split: option.splits)
  show "scheduler st = None \<longrightarrow> stop shutdown st = (st, None)"
    by (simp add: stop_def)
  show "unreferenced (fst (stop shutdown st)) = unreferenced st"
    by (simp add: stop_def split: option.splits sum.splits)
qed

theorem C5_start_registers_one_more_timer_witness:
  "scheduler init_state = None
   \<and> stop (\<lambda>obj. Inl SchedulerNotRunningError) init_state = (init_state, None)
   \<and> timer_registrations (fst (start init_state)) = 1"
proof -
  have none: "scheduler init_state = None"
    by (simp add: init_state_def)
  have zero: "timer_registrations init_state = 0"
    by (simp add: init_state_def timer_registrations_def)
  from C5_start_registers_one_more_timer [of init_state "\<lambda>obj. Inl SchedulerNotRunningError"]
  show ?thesis
    by (simp add: none zero)
qed

text \<open>The claim as stated fails: \<open>start\<close> called on the running scheduler returns
  normally and leaves two live hourly registrations.\<close>

theorem C5_one_registration_counterexample:
  "snd (start init_state) = None
   \<and> snd (start (fst (start init_state))) = None
   \<and> timer_registrations (fst (start (fst (start init_state)))) = 2"
  by (simp add: start_result init_state_def timer_registrations_def live_jobs_def)

end
